theory Spec2Isabelle
  imports Main
begin

section \<open>kube-svc-watch: data model\<close>

text \<open>
  The command-line flags of \<^verbatim>\<open>main.go\<close>. The program keeps them in package-level
  variables that every function reads; here they are one record that is passed along.
\<close>

record Flags =
  kubeconfig :: string
  listenAddr :: string
  terminate :: bool
  slackToken :: string
  slackChan :: string
  provider :: string

text \<open>The values the flags have when the command line gives none.\<close>

definition default_Flags :: Flags where
  "default_Flags = \<lparr>kubeconfig = [], listenAddr = '':8080'', terminate = False,
                     slackToken = [], slackChan = [], provider = ''aws''\<rparr>"

text \<open>
  The fields of \<^verbatim>\<open>v1.Service\<close> that the program reads. \<^verbatim>\<open>Spec.Type\<close> is a
  \<^verbatim>\<open>ServiceType\<close>, which Go declares as a string type; \<^verbatim>\<open>Annotations\<close> is a
  \<^verbatim>\<open>map[string]string\<close>.
\<close>

record Service =
  Namespace :: string
  Name :: string
  UID :: string
  Annotations :: "string \<rightharpoonup> string"
  Spec_Type :: string

definition ServiceTypeLoadBalancer :: string where
  "ServiceTypeLoadBalancer = ''LoadBalancer''"

definition awsLbInternal :: string where
  "awsLbInternal = ''service.beta.kubernetes.io/aws-load-balancer-internal''"

definition awsLbInternalValue :: string where
  "awsLbInternalValue = ''0.0.0.0/0''"

definition gcpLbInternal :: string where
  "gcpLbInternal = ''cloud.google.com/load-balancer-type''"

definition gcpLbInternalValue :: string where
  "gcpLbInternalValue = ''internal''"

text \<open>
  Indexing a Go map: a key that is absent (also in a nil map) reads as the zero value of
  the element type, here the empty string.
\<close>

definition index_map :: "(string \<rightharpoonup> string) \<Rightarrow> string \<Rightarrow> string" where
  "index_map m k = (case m k of None \<Rightarrow> [] | Some v \<Rightarrow> v)"

section \<open>The classifier\<close>

definition isInternal :: "Flags \<Rightarrow> Service \<Rightarrow> bool" where
  "isInternal fl svc =
     (if provider fl = ''aws''
      then Spec_Type svc \<noteq> ServiceTypeLoadBalancer \<or>
           index_map (Annotations svc) awsLbInternal = awsLbInternalValue
      else Spec_Type svc \<noteq> ServiceTypeLoadBalancer \<or>
           index_map (Annotations svc) gcpLbInternal = gcpLbInternalValue)"

section \<open>The metrics collector\<close>

text \<open>
  A metric description and a constant metric of the Prometheus client, reduced to the
  arguments that \<^verbatim>\<open>NewDesc\<close> and \<^verbatim>\<open>MustNewConstMetric\<close> receive.
\<close>

record Desc =
  fqName :: string
  help_text :: string
  variableLabels :: "string list"

definition svcInfo :: Desc where
  "svcInfo = \<lparr>fqName = ''kube_service_info'',
              help_text = ''Information about cluster services.'',
              variableLabels = [''kubernetes_namespace'', ''kubernetes_name'', ''type'', ''internal'']\<rparr>"

datatype ValueType = CounterValue | GaugeValue | UntypedValue

record Metric =
  desc :: Desc
  valueType :: ValueType
  val :: int
  labelValues :: "string list"

text \<open>\<^verbatim>\<open>fmt.Sprintf("%v", b)\<close> for a bool.\<close>

definition Sprintf_bool :: "bool \<Rightarrow> string" where
  "Sprintf_bool b = (if b then ''true'' else ''false'')"

text \<open>
  The collector holds the mirror store; the store is represented by the list that its
  \<^verbatim>\<open>List()\<close> returns. The channel that \<^verbatim>\<open>Collect\<close> writes to is the list of the
  metrics sent so far, oldest first.
\<close>

record svcCollector =
  store :: "Service list"

definition collectSvc :: "Flags \<Rightarrow> Metric list \<Rightarrow> Service \<Rightarrow> Metric list" where
  "collectSvc fl ch svc =
     ch @ [\<lparr>desc = svcInfo, valueType = GaugeValue, val = 1,
            labelValues = [Namespace svc, Name svc, Spec_Type svc,
                           Sprintf_bool (isInternal fl svc)]\<rparr>]"

fun Collect_range :: "Flags \<Rightarrow> Metric list \<Rightarrow> Service list \<Rightarrow> Metric list" where
  "Collect_range fl ch [] = ch"
| "Collect_range fl ch (item # items) = Collect_range fl (collectSvc fl ch item) items"

definition Collect :: "Flags \<Rightarrow> svcCollector \<Rightarrow> Metric list \<Rightarrow> Metric list" where
  "Collect fl c ch = Collect_range fl ch (store c)"

section \<open>The change queue\<close>

text \<open>
  A Go \<^verbatim>\<open>error\<close> as the program meets it: the two failures of a conditional delete
  (a precondition that no longer holds, anything else), each with its message, and the
  \<^verbatim>\<open>cache.ErrRequeue\<close> wrapper that the pop callback returns.
\<close>

datatype error =
    PreconditionFailed string
  | TransientError string
  | ErrRequeue error

fun Error :: "error \<Rightarrow> string" where
  "Error (PreconditionFailed m) = m"
| "Error (TransientError m) = m"
| "Error (ErrRequeue e) = Error e"

type_synonym key = "string \<times> string"

text \<open>
  Modelled from the spec: the key function \<^verbatim>\<open>cache.MetaNamespaceKeyFunc\<close> of the
  client library, which is not part of the source at hand. The spec gives the key of a
  resource as its namespace and name.
\<close>

definition MetaNamespaceKeyFunc :: "Service \<Rightarrow> key" where
  "MetaNamespaceKeyFunc svc = (Namespace svc, Name svc)"

text \<open>
  Modelled from the spec: the change queue \<^verbatim>\<open>cache.FIFO\<close> of the client library,
  which is not part of the source at hand. The pending entries are kept oldest first, each
  a key with the payload it was enqueued with. A push for a key that is pending replaces
  the payload of the pending entry, and otherwise appends; a pop removes and returns the
  oldest entry and blocks (\<open>None\<close>) on an empty queue; a requeue puts an entry back at
  the end unless the key is pending again. The callback of a pop runs before the pop
  returns, so nothing is pushed between the removal and the requeue.
\<close>

type_synonym FIFO = "(key \<times> Service) list"

definition NewFIFO :: FIFO where
  "NewFIFO = []"

fun push_entry :: "key \<Rightarrow> Service \<Rightarrow> FIFO \<Rightarrow> FIFO" where
  "push_entry k v [] = [(k, v)]"
| "push_entry k v ((k', v') # q) =
     (if k' = k then (k, v) # q else (k', v') # push_entry k v q)"

definition push :: "Service \<Rightarrow> FIFO \<Rightarrow> FIFO" where
  "push svc q = push_entry (MetaNamespaceKeyFunc svc) svc q"

definition requeue :: "key \<Rightarrow> Service \<Rightarrow> FIFO \<Rightarrow> FIFO" where
  "requeue k v q = (if k \<in> fst ` set q then q else q @ [(k, v)])"

fun is_requeue :: "error option \<Rightarrow> bool" where
  "is_requeue (Some (ErrRequeue e)) = True"
| "is_requeue _ = False"

fun unwrap_requeue :: "error option \<Rightarrow> error option" where
  "unwrap_requeue (Some (ErrRequeue e)) = Some e"
| "unwrap_requeue err = err"

definition Pop :: "(Service \<Rightarrow> 's \<Rightarrow> error option \<times> 's) \<Rightarrow> FIFO \<Rightarrow> 's
                     \<Rightarrow> (Service \<times> error option \<times> FIFO \<times> 's) option" where
  "Pop process q s =
     (case q of
        [] \<Rightarrow> None
      | (k, item) # rest \<Rightarrow>
          (case process item s of
             (err, s') \<Rightarrow>
               Some (item, unwrap_requeue err,
                     if is_requeue err then requeue k item rest else rest, s')))"

text \<open>Pops until the queue is empty, for reading off what is pending.\<close>

fun drain :: "FIFO \<Rightarrow> Service list" where
  "drain [] = []"
| "drain ((k, item) # rest) = item # drain rest"

section \<open>The termination worker\<close>

text \<open>
  What the worker does to the world, in order: the delete calls it issues, the lines it
  logs, the calls of the notifier, the posts of the Slack notifier, and the start of the
  worker goroutine in \<^verbatim>\<open>main\<close>.
\<close>

record DeleteOptions =
  Preconditions_UID :: "string option"

datatype event =
    DeleteCall string string DeleteOptions
  | LogLine string
  | Notify Service
  | PostMessage string string
  | GoTerminator

text \<open>
  The client is an interface; the worker uses its delete only. It is a function of the
  control plane's state \<open>'c\<close>, the namespace, the name and the options, returning the
  error (\<open>None\<close> for \<^verbatim>\<open>nil\<close>) and the new state.
\<close>

type_synonym 'c Delete_fn = "'c \<Rightarrow> string \<Rightarrow> string \<Rightarrow> DeleteOptions \<Rightarrow> error option \<times> 'c"

text \<open>The callback passed to \<^verbatim>\<open>fifo.Pop\<close>; the trailing newline of a log line is left out.\<close>

definition pop_process :: "Flags \<Rightarrow> 'c Delete_fn \<Rightarrow> Service \<Rightarrow> 'c \<times> event list
                              \<Rightarrow> error option \<times> 'c \<times> event list" where
  "pop_process fl Delete svc s =
     (if isInternal fl svc then (None, s)
      else
        (let opts = \<lparr>Preconditions_UID = Some (UID svc)\<rparr> in
         case Delete (fst s) (Namespace svc) (Name svc) opts of
           (err, c') \<Rightarrow>
             (case err of
                Some e \<Rightarrow>
                  (Some (ErrRequeue e), c',
                   snd s @ [DeleteCall (Namespace svc) (Name svc) opts])
              | None \<Rightarrow>
                  (None, c', snd s @ [DeleteCall (Namespace svc) (Name svc) opts]))))"

text \<open>One turn of the worker's loop; \<open>None\<close> when the pop blocks on an empty queue.\<close>

definition terminator_turn :: "Flags \<Rightarrow> 'c Delete_fn \<Rightarrow> FIFO \<Rightarrow> 'c
                                 \<Rightarrow> (event list \<times> FIFO \<times> 'c) option" where
  "terminator_turn fl Delete fifo c =
     (case Pop (pop_process fl Delete) fifo (c, []) of
        None \<Rightarrow> None
      | Some (svc, err, fifo', c', evs) \<Rightarrow>
          (if \<not> isInternal fl svc then
             (case err of
                Some e \<Rightarrow>
                  Some (evs @ [LogLine (''Error deleting '' @ Namespace svc @ ''/'' @ Name svc
                                          @ '': '' @ Error e)], fifo', c')
              | None \<Rightarrow>
                  Some (evs @ [LogLine (''Deleted external service '' @ Namespace svc @ ''/''
                                          @ Name svc), Notify svc], fifo', c'))
           else Some (evs, fifo', c')))"

text \<open>
  The worker's loop. The reflector feeds the queue from its own goroutine; the schedule
  gives, for each turn of the loop, the services it pushes before that turn's pop. The
  loop itself never ends: it is run for as many turns as the schedule has, and a turn
  whose pop finds the queue empty waits for the next arrivals.
\<close>

fun terminator_loop :: "Flags \<Rightarrow> 'c Delete_fn \<Rightarrow> Service list list \<Rightarrow> FIFO \<Rightarrow> 'c
                          \<Rightarrow> event list \<times> FIFO \<times> 'c" where
  "terminator_loop fl Delete [] fifo c = ([], fifo, c)"
| "terminator_loop fl Delete (arrivals # sched) fifo c =
     (let fifo1 = foldl (\<lambda>q svc. push svc q) fifo arrivals in
      case terminator_turn fl Delete fifo1 c of
        None \<Rightarrow> terminator_loop fl Delete sched fifo1 c
      | Some (evs, fifo2, c2) \<Rightarrow>
          (case terminator_loop fl Delete sched fifo2 c2 of
             (evs', r) \<Rightarrow> (evs @ evs', r)))"

definition terminator :: "Flags \<Rightarrow> 'c Delete_fn \<Rightarrow> Service list list \<Rightarrow> 'c
                            \<Rightarrow> event list \<times> FIFO \<times> 'c" where
  "terminator fl Delete sched c = terminator_loop fl Delete sched NewFIFO c"

section \<open>The Slack notifier\<close>

text \<open>
  \<^verbatim>\<open>PostMessage\<close> of the Slack client, built from the token: given the channel and the
  text it returns an error message or the channel id and the timestamp.
\<close>

type_synonym PostMessage_fn = "string \<Rightarrow> string \<Rightarrow> string \<Rightarrow> string + string \<times> string"

definition notifySlack :: "Flags \<Rightarrow> PostMessage_fn \<Rightarrow> Service \<Rightarrow> event list" where
  "notifySlack fl post svc =
     (if slackToken fl = [] then []
      else
        (let msg = ''Cool story bro: kube-svc-watch just deleted a public Service (''
                   @ Namespace svc @ ''/'' @ Name svc @ '')! kthxbye.'' in
         case post (slackToken fl) (slackChan fl) msg of
           Inl err \<Rightarrow>
             [PostMessage (slackChan fl) msg,
              LogLine (''Error posting to slack '' @ slackChan fl @ '': '' @ err)]
         | Inr (chanId, timestamp) \<Rightarrow>
             [PostMessage (slackChan fl) msg,
              LogLine (''Sent notification to slack '' @ slackChan fl @ '' ('' @ chanId
                       @ '') at '' @ timestamp)]))"

section \<open>Startup\<close>

text \<open>
  What \<^verbatim>\<open>main\<close> asks of its surroundings: the two ways of loading the client
  configuration and the construction of the client, each returning an error message or
  the value.
\<close>

record ('cfg, 'cl) Env =
  InClusterConfig :: "string + 'cfg"
  BuildConfigFromFlags :: "string \<Rightarrow> string \<Rightarrow> string + 'cfg"
  NewForConfig :: "'cfg \<Rightarrow> string + 'cl"

datatype outcome = Panic string | ListenAndServe string

definition main :: "Flags \<Rightarrow> ('cfg, 'cl) Env \<Rightarrow> event list \<times> outcome" where
  "main fl env =
     (case (if kubeconfig fl = [] then InClusterConfig env
            else BuildConfigFromFlags env [] (kubeconfig fl)) of
        Inl err \<Rightarrow> ([], Panic err)
      | Inr config \<Rightarrow>
          (case NewForConfig env config of
             Inl err \<Rightarrow> ([], Panic err)
           | Inr clientset \<Rightarrow>
               (let evs = (if terminate fl
                           then [LogLine ''Termination mode engaged'', GoTerminator]
                           else []) in
                if provider fl = ''aws'' then
                  (evs @ [LogLine ''Using AWS provider'',
                          LogLine (''Serving on '' @ listenAddr fl)],
                   ListenAndServe (listenAddr fl))
                else if provider fl = ''gcp'' then
                  (evs @ [LogLine ''Using GCP provider'',
                          LogLine (''Serving on '' @ listenAddr fl)],
                   ListenAndServe (listenAddr fl))
                else (evs, Panic ''unknown provider specified''))))"

section \<open>Observations and example surroundings\<close>

text \<open>The services the notifier was called with, in order.\<close>

fun notified :: "event list \<Rightarrow> Service list" where
  "notified [] = []"
| "notified (Notify svc # evs) = svc # notified evs"
| "notified (ev # evs) = notified evs"

text \<open>A client whose deletes answer from a script, one answer per call.\<close>

definition scripted :: "error option list Delete_fn" where
  "scripted c ns name opts = (case c of [] \<Rightarrow> (None, []) | r # rs \<Rightarrow> (r, rs))"

text \<open>
  A control plane that holds the UID of each live service and deletes under the
  precondition it is given.
\<close>

definition cluster_Delete :: "(key \<rightharpoonup> string) Delete_fn" where
  "cluster_Delete c ns name opts =
     (case c (ns, name) of
        None \<Rightarrow> (Some (TransientError ''not found''), c)
      | Some uid \<Rightarrow>
          (case Preconditions_UID opts of
             None \<Rightarrow> (None, c((ns, name) := None))
           | Some u \<Rightarrow>
               (if u = uid then (None, c((ns, name) := None))
                else (Some (PreconditionFailed ''the UID in the precondition does not match''),
                      c))))"

definition live :: "key \<rightharpoonup> string" where
  "live = [(''default'', ''web'') \<mapsto> ''uid-1'']"

text \<open>The same name after a delete and a recreate: a new UID.\<close>

definition recreated :: "key \<rightharpoonup> string" where
  "recreated = [(''default'', ''web'') \<mapsto> ''uid-2'']"

definition web :: Service where
  "web = \<lparr>Namespace = ''default'', Name = ''web'', UID = ''uid-1'',
           Annotations = Map.empty, Spec_Type = ''LoadBalancer''\<rparr>"

definition post_ok :: PostMessage_fn where
  "post_ok token chan msg = Inr (''C024BE91L'', ''1503435956.000247'')"

definition post_fails :: PostMessage_fn where
  "post_fails token chan msg = Inl ''channel_not_found''"

definition ok_Env :: "(unit, unit) Env" where
  "ok_Env = \<lparr>InClusterConfig = Inr (), BuildConfigFromFlags = (\<lambda>url path. Inr ()),
             NewForConfig = (\<lambda>config. Inr ())\<rparr>"

section \<open>Properties of the classifier\<close>

lemma index_map_eq_iff: "v \<noteq> [] \<Longrightarrow> index_map m k = v \<longleftrightarrow> m k = Some v"
  by (auto simp: index_map_def split: option.splits)

lemma web_external: "\<not> isInternal default_Flags web"
  by (simp add: isInternal_def default_Flags_def web_def ServiceTypeLoadBalancer_def
        index_map_def awsLbInternalValue_def)

text \<open>
  C1. A service whose type is not \<^verbatim>\<open>LoadBalancer\<close> is classified internal, whatever its
  annotations are and whichever provider is selected.
\<close>

theorem isInternal_not_LoadBalancer:
  "Spec_Type svc \<noteq> ServiceTypeLoadBalancer \<Longrightarrow> isInternal fl svc"
  by (simp add: isInternal_def)

text \<open>A \<^verbatim>\<open>ClusterIP\<close> service under the GCP provider.\<close>

theorem isInternal_not_LoadBalancer_witness:
  "isInternal (default_Flags\<lparr>provider := ''gcp''\<rparr>)
     (web\<lparr>Spec_Type := ''ClusterIP''\<rparr>)"
  using isInternal_not_LoadBalancer
          [of "web\<lparr>Spec_Type := ''ClusterIP''\<rparr>" "default_Flags\<lparr>provider := ''gcp''\<rparr>"]
  by (simp add: web_def ServiceTypeLoadBalancer_def)

text \<open>
  C2. A service of type \<^verbatim>\<open>LoadBalancer\<close> is classified internal exactly when the
  annotation under the selected provider's marker key is present with the provider's
  expected value: for AWS the key
  \<^verbatim>\<open>service.beta.kubernetes.io/aws-load-balancer-internal\<close> with the value
  \<^verbatim>\<open>0.0.0.0/0\<close>, for GCP the key \<^verbatim>\<open>cloud.google.com/load-balancer-type\<close> with the
  value \<^verbatim>\<open>internal\<close>. Any other value, and a missing key, make it external.
\<close>

theorem isInternal_LoadBalancer:
  "Spec_Type svc = ServiceTypeLoadBalancer \<Longrightarrow>
     (provider fl = ''aws'' \<longrightarrow>
        isInternal fl svc =
          (Annotations svc ''service.beta.kubernetes.io/aws-load-balancer-internal''
             = Some ''0.0.0.0/0'')) \<and>
     (provider fl = ''gcp'' \<longrightarrow>
        isInternal fl svc =
          (Annotations svc ''cloud.google.com/load-balancer-type'' = Some ''internal''))"
  by (simp add: isInternal_def index_map_eq_iff awsLbInternal_def awsLbInternalValue_def
        gcpLbInternal_def gcpLbInternalValue_def)

text \<open>
  A load balancer with the AWS marker is internal under AWS and external under GCP; with
  another value under the marker key, and with no annotation at all, it is external.
\<close>

theorem isInternal_LoadBalancer_witness:
  "isInternal default_Flags
     (web\<lparr>Annotations :=
            [''service.beta.kubernetes.io/aws-load-balancer-internal'' \<mapsto> ''0.0.0.0/0'']\<rparr>) \<and>
   \<not> isInternal (default_Flags\<lparr>provider := ''gcp''\<rparr>)
     (web\<lparr>Annotations :=
            [''service.beta.kubernetes.io/aws-load-balancer-internal'' \<mapsto> ''0.0.0.0/0'']\<rparr>) \<and>
   \<not> isInternal default_Flags
     (web\<lparr>Annotations :=
            [''service.beta.kubernetes.io/aws-load-balancer-internal'' \<mapsto> ''true'']\<rparr>) \<and>
   \<not> isInternal default_Flags web"
  using isInternal_LoadBalancer
          [of "web\<lparr>Annotations :=
            [''service.beta.kubernetes.io/aws-load-balancer-internal'' \<mapsto> ''0.0.0.0/0'']\<rparr>"
              default_Flags]
        isInternal_LoadBalancer
          [of "web\<lparr>Annotations :=
            [''service.beta.kubernetes.io/aws-load-balancer-internal'' \<mapsto> ''0.0.0.0/0'']\<rparr>"
              "default_Flags\<lparr>provider := ''gcp''\<rparr>"]
        isInternal_LoadBalancer
          [of "web\<lparr>Annotations :=
            [''service.beta.kubernetes.io/aws-load-balancer-internal'' \<mapsto> ''true'']\<rparr>"
              default_Flags]
        isInternal_LoadBalancer [of web default_Flags]
  by (simp add: web_def default_Flags_def ServiceTypeLoadBalancer_def)

text \<open>
  C10. Under every provider value other than \<^verbatim>\<open>aws\<close>, also one outside the supported
  set, the classifier uses the GCP marker key and value: it never rejects a provider, and
  it classifies as it does under \<^verbatim>\<open>gcp\<close>.
\<close>

theorem isInternal_other_provider:
  "provider fl \<noteq> ''aws'' \<Longrightarrow>
     isInternal fl svc =
       (Spec_Type svc \<noteq> ServiceTypeLoadBalancer \<or>
        Annotations svc ''cloud.google.com/load-balancer-type'' = Some ''internal'') \<and>
     isInternal fl svc = isInternal (fl\<lparr>provider := ''gcp''\<rparr>) svc"
  by (simp add: isInternal_def index_map_eq_iff gcpLbInternal_def gcpLbInternalValue_def)

text \<open>
  Under the provider \<^verbatim>\<open>azure\<close> a load balancer with the GCP marker is internal, and one
  with the AWS marker is external.
\<close>

theorem isInternal_other_provider_witness:
  "isInternal (default_Flags\<lparr>provider := ''azure''\<rparr>)
     (web\<lparr>Annotations := [''cloud.google.com/load-balancer-type'' \<mapsto> ''internal'']\<rparr>) \<and>
   \<not> isInternal (default_Flags\<lparr>provider := ''azure''\<rparr>)
     (web\<lparr>Annotations :=
            [''service.beta.kubernetes.io/aws-load-balancer-internal'' \<mapsto> ''0.0.0.0/0'']\<rparr>)"
  using isInternal_other_provider
          [of "default_Flags\<lparr>provider := ''azure''\<rparr>"
              "web\<lparr>Annotations := [''cloud.google.com/load-balancer-type'' \<mapsto> ''internal'']\<rparr>"]
        isInternal_other_provider
          [of "default_Flags\<lparr>provider := ''azure''\<rparr>"
              "web\<lparr>Annotations :=
            [''service.beta.kubernetes.io/aws-load-balancer-internal'' \<mapsto> ''0.0.0.0/0'']\<rparr>"]
  by (simp add: web_def default_Flags_def ServiceTypeLoadBalancer_def)

section \<open>Properties of the metrics collector\<close>

lemma Collect_range_eq:
  "Collect_range fl ch items =
     ch @ map (\<lambda>svc. \<lparr>desc = svcInfo, valueType = GaugeValue, val = 1,
                      labelValues = [Namespace svc, Name svc, Spec_Type svc,
                                     Sprintf_bool (isInternal fl svc)]\<rparr>) items"
  by (induction items arbitrary: ch) (simp_all add: collectSvc_def)

text \<open>
  C9. A scrape sends, for every service in the store's listing, exactly one gauge sample of
  value 1, labelled with the service's namespace, name and type and with the
  classification computed at that moment; the labels are as many as the description
  declares. The samples are a function of the flags and the listing alone: nothing is
  kept from one scrape to the next.
\<close>

theorem Collect_samples:
  "Collect fl c ch =
     ch @ map (\<lambda>svc. \<lparr>desc = svcInfo, valueType = GaugeValue, val = 1,
                      labelValues = [Namespace svc, Name svc, Spec_Type svc,
                                     if isInternal fl svc then ''true'' else ''false'']\<rparr>)
              (store c) \<and>
   length (Collect fl c ch) = length ch + length (store c) \<and>
   (\<forall>m \<in> set (Collect fl c []).
      length (labelValues m) = length (variableLabels (desc m)))"
  by (auto simp add: Collect_def Collect_range_eq Sprintf_bool_def svcInfo_def)

text \<open>A store with an external load balancer and a \<^verbatim>\<open>ClusterIP\<close> service.\<close>

theorem Collect_samples_witness:
  "Collect default_Flags \<lparr>store = [web, web\<lparr>Name := ''db'', Spec_Type := ''ClusterIP''\<rparr>]\<rparr> [] =
     [\<lparr>desc = svcInfo, valueType = GaugeValue, val = 1,
       labelValues = [''default'', ''web'', ''LoadBalancer'', ''false'']\<rparr>,
      \<lparr>desc = svcInfo, valueType = GaugeValue, val = 1,
       labelValues = [''default'', ''db'', ''ClusterIP'', ''true'']\<rparr>]"
  using Collect_samples
          [of default_Flags "\<lparr>store = [web, web\<lparr>Name := ''db'', Spec_Type := ''ClusterIP''\<rparr>]\<rparr>"
              "[]"]
  by (simp add: web_def default_Flags_def isInternal_def ServiceTypeLoadBalancer_def
        index_map_def awsLbInternalValue_def)

section \<open>Properties of the change queue\<close>

lemma Pop_Cons:
  "Pop process ((k, item) # rest) s =
     Some (item, unwrap_requeue (fst (process item s)),
           if is_requeue (fst (process item s)) then requeue k item rest else rest,
           snd (process item s))"
  by (simp add: Pop_def split: prod.splits)

lemma keys_push_entry:
  "map fst (push_entry k v q) = (if k \<in> set (map fst q) then map fst q else map fst q @ [k])"
  by (induction k v q rule: push_entry.induct) auto

lemma distinct_push_entry:
  "distinct (map fst q) \<Longrightarrow> distinct (map fst (push_entry k v q))"
  by (simp add: keys_push_entry)

lemma pending_push_entry:
  "distinct (map fst q) \<Longrightarrow> filter (\<lambda>e. fst e = k) (push_entry k v q) = [(k, v)]"
proof (induction q)
  case Nil
  then show ?case by simp
next
  case (Cons e q)
  obtain k' v' where e: "e = (k', v')" by (cases e)
  show ?case
  proof (cases "k' = k")
    case True
    with Cons.prems e have "k \<notin> fst ` set q" by auto
    then have "filter (\<lambda>e. fst e = k) q = []"
      by (auto simp: filter_empty_conv)
    with True e show ?thesis by simp
  next
    case False
    with Cons e show ?thesis by simp
  qed
qed

lemma push_entry_twice: "push_entry k b (push_entry k a q) = push_entry k b q"
  by (induction q) auto

text \<open>
  C6. The queue keeps at most one pending entry per key. Two pushes for the same key with
  no pop between them, onto a queue whose pending keys are distinct, leave the keys
  distinct and leave one pending entry for that key, holding the later payload; onto a
  new queue they leave that one entry alone, and the one pop there is yields the later
  payload.
\<close>

theorem push_coalesces:
  assumes "MetaNamespaceKeyFunc a = MetaNamespaceKeyFunc b"
    and "distinct (map fst q)"
  shows "distinct (map fst (push b (push a q))) \<and>
         filter (\<lambda>e. fst e = MetaNamespaceKeyFunc b) (push b (push a q))
           = [(MetaNamespaceKeyFunc b, b)] \<and>
         push b (push a NewFIFO) = [(MetaNamespaceKeyFunc b, b)] \<and>
         drain (push b (push a NewFIFO)) = [b] \<and>
         Pop process (push b (push a NewFIFO)) s
           = Some (b, unwrap_requeue (fst (process b s)),
                   if is_requeue (fst (process b s)) then [(MetaNamespaceKeyFunc b, b)] else [],
                   snd (process b s))"
  using assms
  by (simp add: push_def push_entry_twice distinct_push_entry pending_push_entry NewFIFO_def
        Pop_Cons requeue_def)

text \<open>
  The service \<^verbatim>\<open>default/web\<close> pushed twice, the second time with the AWS marker, behind
  a pending \<^verbatim>\<open>default/db\<close>.
\<close>

theorem push_coalesces_witness:
  "push (web\<lparr>Annotations := [awsLbInternal \<mapsto> awsLbInternalValue]\<rparr>)
     (push web [((''default'', ''db''), web\<lparr>Name := ''db''\<rparr>)])
   = [((''default'', ''db''), web\<lparr>Name := ''db''\<rparr>),
      ((''default'', ''web''), web\<lparr>Annotations := [awsLbInternal \<mapsto> awsLbInternalValue]\<rparr>)] \<and>
   drain (push (web\<lparr>Annotations := [awsLbInternal \<mapsto> awsLbInternalValue]\<rparr>)
            (push web NewFIFO))
   = [web\<lparr>Annotations := [awsLbInternal \<mapsto> awsLbInternalValue]\<rparr>]"
proof -
  have same: "MetaNamespaceKeyFunc web
                = MetaNamespaceKeyFunc (web\<lparr>Annotations := [awsLbInternal \<mapsto> awsLbInternalValue]\<rparr>)"
    by (simp add: MetaNamespaceKeyFunc_def)
  have inv: "distinct (map fst [((''default'', ''db''), web\<lparr>Name := ''db''\<rparr>)])"
    by simp
  show ?thesis
    using push_coalesces [of web "web\<lparr>Annotations := [awsLbInternal \<mapsto> awsLbInternalValue]\<rparr>"
                             "[((''default'', ''db''), web\<lparr>Name := ''db''\<rparr>)]"] same inv
    by (simp add: push_def MetaNamespaceKeyFunc_def web_def NewFIFO_def)
qed

section \<open>Properties of the termination worker\<close>

lemma pop_process_external:
  "\<not> isInternal fl svc \<Longrightarrow>
   Delete c (Namespace svc) (Name svc) \<lparr>Preconditions_UID = Some (UID svc)\<rparr> = (err, c') \<Longrightarrow>
   pop_process fl Delete svc (c, []) =
     (map_option ErrRequeue err, c',
      [DeleteCall (Namespace svc) (Name svc) \<lparr>Preconditions_UID = Some (UID svc)\<rparr>])"
  by (simp add: pop_process_def Let_def split: option.splits)

text \<open>A delete that fails, with whatever error: the turn logs it and requeues.\<close>

lemma terminator_turn_delete_error:
  assumes "\<not> isInternal fl svc"
    and "Delete c (Namespace svc) (Name svc) \<lparr>Preconditions_UID = Some (UID svc)\<rparr> = (Some e, c')"
  shows "terminator_turn fl Delete ((k, svc) # rest) c =
           Some ([DeleteCall (Namespace svc) (Name svc) \<lparr>Preconditions_UID = Some (UID svc)\<rparr>,
                  LogLine (''Error deleting '' @ Namespace svc @ ''/'' @ Name svc @ '': ''
                           @ Error e)],
                 requeue k svc rest, c')"
  using assms by (simp add: terminator_turn_def Pop_Cons pop_process_external)

lemma terminator_turn_delete_ok:
  assumes "\<not> isInternal fl svc"
    and "Delete c (Namespace svc) (Name svc) \<lparr>Preconditions_UID = Some (UID svc)\<rparr> = (None, c')"
  shows "terminator_turn fl Delete ((k, svc) # rest) c =
           Some ([DeleteCall (Namespace svc) (Name svc) \<lparr>Preconditions_UID = Some (UID svc)\<rparr>,
                  LogLine (''Deleted external service '' @ Namespace svc @ ''/'' @ Name svc),
                  Notify svc],
                 rest, c')"
  using assms by (simp add: terminator_turn_def Pop_Cons pop_process_external)

text \<open>
  C5. When the worker pops an external service and the delete under the service's UID
  succeeds, the turn calls the notifier exactly once, with that service (its namespace and
  name), after logging the deletion; the entry is not put back.
\<close>

theorem terminator_delete_success_notifies_once:
  fixes svc :: Service
  defines "evs \<equiv> [DeleteCall (Namespace svc) (Name svc) \<lparr>Preconditions_UID = Some (UID svc)\<rparr>,
                   LogLine (''Deleted external service '' @ Namespace svc @ ''/'' @ Name svc),
                   Notify svc]"
  assumes "\<not> isInternal fl svc"
    and "Delete c (Namespace svc) (Name svc) \<lparr>Preconditions_UID = Some (UID svc)\<rparr> = (None, c')"
  shows "terminator_turn fl Delete ((k, svc) # rest) c = Some (evs, rest, c') \<and>
         notified evs = [svc]"
  using terminator_turn_delete_ok [of fl svc Delete c c' k rest] assms by simp

text \<open>
  A load balancer with no annotations, live under the UID the queue holds: it is deleted
  and the notifier is called once.
\<close>

theorem terminator_delete_success_notifies_once_witness:
  "terminator_turn default_Flags cluster_Delete [(MetaNamespaceKeyFunc web, web)] live
     = Some ([DeleteCall ''default'' ''web'' \<lparr>Preconditions_UID = Some ''uid-1''\<rparr>,
              LogLine ''Deleted external service default/web'',
              Notify web], [], live((''default'', ''web'') := None)) \<and>
   notified [DeleteCall ''default'' ''web'' \<lparr>Preconditions_UID = Some ''uid-1''\<rparr>,
             LogLine ''Deleted external service default/web'',
             Notify web] = [web]"
proof -
  have del: "cluster_Delete live (Namespace web) (Name web)
               \<lparr>Preconditions_UID = Some (UID web)\<rparr>
             = (None, live((''default'', ''web'') := None))"
    by (simp add: cluster_Delete_def web_def live_def)
  show ?thesis
    using terminator_delete_success_notifies_once
            [of default_Flags web cluster_Delete live "live((''default'', ''web'') := None)"
                "MetaNamespaceKeyFunc web" "[]"] web_external del
    by (simp add: web_def)
qed

text \<open>
  C4. When the delete of an external service fails with a transient error, the turn logs
  the error, puts the entry back at the end of the queue and does not call the notifier;
  the loop goes on with the next turn from that queue.
\<close>

theorem terminator_transient_error_requeues:
  fixes svc :: Service
  defines "evs \<equiv> \<lambda>m. [DeleteCall (Namespace svc) (Name svc) \<lparr>Preconditions_UID = Some (UID svc)\<rparr>,
                   LogLine (''Error deleting '' @ Namespace svc @ ''/'' @ Name svc @ '': '' @ m)]"
  assumes "\<not> isInternal fl svc"
    and "k \<notin> fst ` set rest"
    and "Delete c (Namespace svc) (Name svc) \<lparr>Preconditions_UID = Some (UID svc)\<rparr>
           = (Some (TransientError m), c')"
  shows "terminator_turn fl Delete ((k, svc) # rest) c = Some (evs m, rest @ [(k, svc)], c') \<and>
         notified (evs m) = [] \<and>
         terminator_loop fl Delete ([] # sched) ((k, svc) # rest) c =
           (evs m @ fst (terminator_loop fl Delete sched (rest @ [(k, svc)]) c'),
            snd (terminator_loop fl Delete sched (rest @ [(k, svc)]) c'))"
  using terminator_turn_delete_error [of fl svc Delete c "TransientError m" c' k rest] assms
  by (simp add: requeue_def split: prod.splits)

text \<open>
  A client that refuses the first delete and accepts the second: the first turn requeues
  without a notification, and the run of two turns notifies once.
\<close>

theorem terminator_transient_error_requeues_witness:
  "terminator_turn default_Flags scripted [(MetaNamespaceKeyFunc web, web)]
     [Some (TransientError ''connection refused''), None]
   = Some ([DeleteCall ''default'' ''web'' \<lparr>Preconditions_UID = Some ''uid-1''\<rparr>,
            LogLine ''Error deleting default/web: connection refused''],
           [(MetaNamespaceKeyFunc web, web)], [None]) \<and>
   terminator default_Flags scripted [[web], []]
      [Some (TransientError ''connection refused''), None]
   = ([DeleteCall ''default'' ''web'' \<lparr>Preconditions_UID = Some ''uid-1''\<rparr>,
       LogLine ''Error deleting default/web: connection refused'',
       DeleteCall ''default'' ''web'' \<lparr>Preconditions_UID = Some ''uid-1''\<rparr>,
       LogLine ''Deleted external service default/web'',
       Notify web], [], [])"
proof -
  have del: "scripted [Some (TransientError ''connection refused''), None] (Namespace web)
               (Name web) \<lparr>Preconditions_UID = Some (UID web)\<rparr>
             = (Some (TransientError ''connection refused''), [None])"
    by (simp add: scripted_def)
  have del2: "scripted [None] (Namespace web) (Name web) \<lparr>Preconditions_UID = Some (UID web)\<rparr>
             = (None, [])"
    by (simp add: scripted_def)
  have nxt: "terminator_loop default_Flags scripted [[]] [(MetaNamespaceKeyFunc web, web)] [None]
               = ([DeleteCall (Namespace web) (Name web) \<lparr>Preconditions_UID = Some (UID web)\<rparr>,
                  LogLine (''Deleted external service '' @ Namespace web @ ''/'' @ Name web),
                  Notify web], [], [])"
    using terminator_turn_delete_ok [of default_Flags web scripted "[None]" "[]"
             "MetaNamespaceKeyFunc web" "[]"] web_external del2 by simp
  show ?thesis
    using terminator_transient_error_requeues
            [of default_Flags web "MetaNamespaceKeyFunc web" "[]" scripted
                "[Some (TransientError ''connection refused''), None]"
                "''connection refused''" "[None]" "[[]]"] web_external del nxt
    by (simp add: terminator_def NewFIFO_def push_def) (simp add: web_def)
qed

text \<open>
  C3, as the code has it. When the delete of an external service fails because the UID of
  the precondition no longer matches, the turn does not call the notifier; it treats the
  failure as any other delete error: it logs the error and puts the entry back at the end
  of the queue.
\<close>

theorem terminator_precondition_mismatch_requeues:
  fixes svc :: Service
  defines "evs \<equiv> \<lambda>m. [DeleteCall (Namespace svc) (Name svc) \<lparr>Preconditions_UID = Some (UID svc)\<rparr>,
                   LogLine (''Error deleting '' @ Namespace svc @ ''/'' @ Name svc @ '': '' @ m)]"
  assumes "\<not> isInternal fl svc"
    and "k \<notin> fst ` set rest"
    and "Delete c (Namespace svc) (Name svc) \<lparr>Preconditions_UID = Some (UID svc)\<rparr>
           = (Some (PreconditionFailed m), c')"
  shows "terminator_turn fl Delete ((k, svc) # rest) c = Some (evs m, rest @ [(k, svc)], c') \<and>
         notified (evs m) = []"
  using terminator_turn_delete_error [of fl svc Delete c "PreconditionFailed m" c' k rest] assms
  by (simp add: requeue_def)

text \<open>
  The service was recreated under a new UID while the stale entry waited in front of
  another one: the stale entry goes to the end of the queue.
\<close>

theorem terminator_precondition_mismatch_requeues_witness:
  "terminator_turn default_Flags cluster_Delete
     [(MetaNamespaceKeyFunc web, web), ((''default'', ''db''), web\<lparr>Name := ''db''\<rparr>)] recreated
   = Some ([DeleteCall ''default'' ''web'' \<lparr>Preconditions_UID = Some ''uid-1''\<rparr>,
            LogLine ''Error deleting default/web: the UID in the precondition does not match''],
           [((''default'', ''db''), web\<lparr>Name := ''db''\<rparr>), (MetaNamespaceKeyFunc web, web)],
           recreated)"
proof -
  have del: "cluster_Delete recreated (Namespace web) (Name web)
               \<lparr>Preconditions_UID = Some (UID web)\<rparr>
             = (Some (PreconditionFailed ''the UID in the precondition does not match''),
                recreated)"
    by (simp add: cluster_Delete_def recreated_def web_def)
  have fresh: "MetaNamespaceKeyFunc web \<notin> fst ` set [((''default'', ''db''), web\<lparr>Name := ''db''\<rparr>)]"
    by (simp add: MetaNamespaceKeyFunc_def web_def)
  show ?thesis
    using terminator_precondition_mismatch_requeues
            [of default_Flags web "MetaNamespaceKeyFunc web"
                "[((''default'', ''db''), web\<lparr>Name := ''db''\<rparr>)]" cluster_Delete recreated
                "''the UID in the precondition does not match''" recreated]
          web_external fresh del
    by (simp add: web_def)
qed

text \<open>
  Against C3 as the spec words it (no error, no requeue): with the only pending entry
  stale, the turn logs an error line and leaves the same entry pending.
\<close>

theorem terminator_precondition_mismatch_counterexample:
  "terminator_turn default_Flags cluster_Delete [(MetaNamespaceKeyFunc web, web)] recreated
   = Some ([DeleteCall ''default'' ''web'' \<lparr>Preconditions_UID = Some ''uid-1''\<rparr>,
            LogLine ''Error deleting default/web: the UID in the precondition does not match''],
           [(MetaNamespaceKeyFunc web, web)], recreated)"
proof -
  have del: "cluster_Delete recreated (Namespace web) (Name web)
               \<lparr>Preconditions_UID = Some (UID web)\<rparr>
             = (Some (PreconditionFailed ''the UID in the precondition does not match''),
                recreated)"
    by (simp add: cluster_Delete_def recreated_def web_def)
  show ?thesis
    using terminator_turn_delete_error
            [of default_Flags web cluster_Delete recreated
                "PreconditionFailed ''the UID in the precondition does not match''" recreated
                "MetaNamespaceKeyFunc web" "[]"] web_external del
    by (simp add: requeue_def) (simp add: web_def)
qed

section \<open>Properties of startup and of the notifier\<close>

text \<open>
  C7. With a provider flag that is neither \<^verbatim>\<open>aws\<close> nor \<^verbatim>\<open>gcp\<close>, \<^verbatim>\<open>main\<close> ends in
  a panic and never reaches the serving of metrics; when the configuration and the client
  load, the panic is the one for the unknown provider.
\<close>

theorem main_unknown_provider_panics:
  assumes "provider fl \<noteq> ''aws''" and "provider fl \<noteq> ''gcp''"
  shows "(\<exists>msg. snd (main fl env) = Panic msg) \<and>
         (\<forall>config cl.
            (if kubeconfig fl = [] then InClusterConfig env
             else BuildConfigFromFlags env [] (kubeconfig fl)) = Inr config \<longrightarrow>
            NewForConfig env config = Inr cl \<longrightarrow>
            snd (main fl env) = Panic ''unknown provider specified'')"
  using assms by (simp add: main_def split: sum.splits)

text \<open>
  The provider \<^verbatim>\<open>azure\<close>, without and with termination mode; in termination mode the
  worker goroutine has been started when the panic comes.
\<close>

theorem main_unknown_provider_panics_witness:
  "main (default_Flags\<lparr>provider := ''azure''\<rparr>) ok_Env
     = ([], Panic ''unknown provider specified'') \<and>
   main (default_Flags\<lparr>provider := ''azure'', terminate := True\<rparr>) ok_Env
     = ([LogLine ''Termination mode engaged'', GoTerminator],
        Panic ''unknown provider specified'')"
  using main_unknown_provider_panics [of "default_Flags\<lparr>provider := ''azure''\<rparr>" ok_Env]
  by (simp add: main_def default_Flags_def ok_Env_def)

text \<open>
  C8, as the code has it. With an empty Slack token the notifier does nothing: no post, no
  log line, whatever the channel is.
\<close>

theorem notifySlack_no_token:
  "slackToken fl = [] \<Longrightarrow> notifySlack fl post svc = []"
  by (simp add: notifySlack_def)

text \<open>No token and a channel, with a Slack client that would fail.\<close>

theorem notifySlack_no_token_witness:
  "notifySlack (default_Flags\<lparr>slackChan := ''#ops''\<rparr>) post_fails web = []"
  using notifySlack_no_token [of "default_Flags\<lparr>slackChan := ''#ops''\<rparr>" post_fails web]
  by (simp add: default_Flags_def)

text \<open>
  Against C8 as the spec words it (an empty channel disables the notifier): with a token
  and no channel the post is attempted, to the empty channel, and its failure is logged.
\<close>

theorem notifySlack_empty_channel_counterexample:
  "slackChan (default_Flags\<lparr>slackToken := ''xoxb-1''\<rparr>) = [] \<and>
   notifySlack (default_Flags\<lparr>slackToken := ''xoxb-1''\<rparr>) post_fails web
     = [PostMessage []
          ''Cool story bro: kube-svc-watch just deleted a public Service (default/web)! kthxbye.'',
        LogLine ''Error posting to slack : channel_not_found'']"
  by (simp add: notifySlack_def default_Flags_def post_fails_def web_def)

end
